theory Spec2Isabelle
  imports Complex_Main "HOL-Library.AList"
begin

section \<open>Python values used by the classifier\<close>

text \<open>
  A Python \<open>dict\<close> is an association list in insertion order whose keys are distinct;
  \<open>d[k] = v\<close> is \<open>AList.update k v d\<close> (replace in place, or append a new key) and a
  lookup is \<open>map_of d k\<close>.  An exception is a value: a method that mutates the object
  returns either the object, or the exception together with the object as the
  statements executed before the \<open>raise\<close> left it.

  Numbers: the staged deltas and sample counts are Python integers (\<open>int\<close>), the
  occurrence counts of one text are non-negative integers (\<open>nat\<close>), and the frequencies,
  which Python holds as floats after the true division of \<open>from __future__ import
  division\<close>, are exact rationals (\<open>rat\<close>).
\<close>

datatype error = KeyError | ZeroDivisionError | ValueError | OverflowError

type_synonym feature = string
type_synonym category = string
type_synonym feature_counts = "(feature \<times> nat) list"

type_synonym 's result = "(error \<times> 's) + 's"

text \<open>The object as it is after the call, whether the call returned or raised.\<close>

definition state_after :: "'s result \<Rightarrow> 's" where
  "state_after r = (case r of Inl (e, s) \<Rightarrow> s | Inr s \<Rightarrow> s)"

subsection \<open>collections.Counter\<close>

text \<open>
  \<open>Counter.__missing__\<close> makes \<open>c[k]\<close> read as 0 for an absent key, as does
  \<open>c.get(k, 0)\<close>; \<open>c[k] += v\<close> reads that value and stores the sum.
\<close>

definition counter_get :: "('k \<times> 'v::zero) list \<Rightarrow> 'k \<Rightarrow> 'v" where
  "counter_get c k = (case map_of c k of None \<Rightarrow> 0 | Some v \<Rightarrow> v)"

definition counter_incr :: "'k \<Rightarrow> 'v \<Rightarrow> ('k \<times> 'v::{zero,plus}) list \<Rightarrow> ('k \<times> 'v) list" where
  "counter_incr k v c = AList.update k (counter_get c k + v) c"

text \<open>
  \<open>Counter._keep_positive\<close> deletes every entry whose count is not positive;
  both in-place operators end with it:
  \<^verbatim>\<open>
  def __iadd__(self, other):
      for elem, count in other.items():
          self[elem] += count
      return self._keep_positive()
  def __isub__(self, other):
      for elem, count in other.items():
          self[elem] -= count
      return self._keep_positive()
  \<close>
\<close>

definition keep_positive :: "('k \<times> int) list \<Rightarrow> ('k \<times> int) list" where
  "keep_positive c = filter (\<lambda>(elem, count). 0 < count) c"

definition counter_iadd :: "('k \<times> int) list \<Rightarrow> ('k \<times> nat) list \<Rightarrow> ('k \<times> int) list" where
  "counter_iadd self other =
     keep_positive (foldl (\<lambda>s (elem, count). counter_incr elem (int count) s) self other)"

definition counter_isub :: "('k \<times> int) list \<Rightarrow> ('k \<times> nat) list \<Rightarrow> ('k \<times> int) list" where
  "counter_isub self other =
     keep_positive (foldl (\<lambda>s (elem, count). counter_incr elem (- int count) s) self other)"

section \<open>TextClassifier (classifier.py)\<close>

text \<open>
  The four dictionaries of the object, keyed by category: the staged feature deltas
  \<open>_counts_change\<close>, the committed frequency tables \<open>counts\<close>, the committed
  \<open>sample_counts\<close> and the staged \<open>_sample_counts_change\<close>.
\<close>

record TextClassifier =
  counts_change :: "(category \<times> (feature \<times> int) list) list"
  counts :: "(category \<times> (feature \<times> rat) list) list"
  sample_counts :: "(category \<times> int) list"
  sample_counts_change :: "(category \<times> int) list"

definition init_category :: "TextClassifier \<Rightarrow> category \<Rightarrow> TextClassifier" where
  "init_category self i =
     self\<lparr>counts_change := AList.update i [] (counts_change self),
          counts := AList.update i [] (counts self),
          sample_counts_change := AList.update i 0 (sample_counts_change self),
          sample_counts := AList.update i 0 (sample_counts self)\<rparr>"

definition init :: "category list \<Rightarrow> TextClassifier" where
  "init categories =
     foldl init_category
       \<lparr>counts_change = [], counts = [], sample_counts = [], sample_counts_change = []\<rparr>
       categories"

subsection \<open>Staging\<close>

text \<open>
  \<^verbatim>\<open>
  def add_sample(self, features, category):
      self._counts_change[category] += features
      self._sample_counts_change[category] += 1
  \<close>
  Reading an unknown category raises \<open>KeyError\<close>; the second statement runs on the
  object the first one has already changed.
\<close>

definition add_sample :: "TextClassifier \<Rightarrow> feature_counts \<Rightarrow> category \<Rightarrow> TextClassifier result" where
  "add_sample self features category =
     (case map_of (counts_change self) category of
        None \<Rightarrow> Inl (KeyError, self)
      | Some changes \<Rightarrow>
          (let self1 = self\<lparr>counts_change :=
                 AList.update category (counter_iadd changes features) (counts_change self)\<rparr>
           in case map_of (sample_counts_change self1) category of
                None \<Rightarrow> Inl (KeyError, self1)
              | Some n \<Rightarrow> Inr (self1\<lparr>sample_counts_change :=
                   AList.update category (n + 1) (sample_counts_change self1)\<rparr>)))"

definition remove_sample :: "TextClassifier \<Rightarrow> feature_counts \<Rightarrow> category \<Rightarrow> TextClassifier result" where
  "remove_sample self features category =
     (case map_of (counts_change self) category of
        None \<Rightarrow> Inl (KeyError, self)
      | Some changes \<Rightarrow>
          (let self1 = self\<lparr>counts_change :=
                 AList.update category (counter_isub changes features) (counts_change self)\<rparr>
           in case map_of (sample_counts_change self1) category of
                None \<Rightarrow> Inl (KeyError, self1)
              | Some n \<Rightarrow> Inr (self1\<lparr>sample_counts_change :=
                   AList.update category (n - 1) (sample_counts_change self1)\<rparr>)))"

fun add_samples :: "TextClassifier \<Rightarrow> (feature_counts \<times> category) list \<Rightarrow> TextClassifier result" where
  "add_samples self [] = Inr self"
| "add_samples self ((features, category) # samples) =
     (case add_sample self features category of
        Inl e \<Rightarrow> Inl e
      | Inr self' \<Rightarrow> add_samples self' samples)"

fun remove_samples :: "TextClassifier \<Rightarrow> (feature_counts \<times> category) list \<Rightarrow> TextClassifier result" where
  "remove_samples self [] = Inr self"
| "remove_samples self ((features, category) # samples) =
     (case remove_sample self features category of
        Inl e \<Rightarrow> Inl e
      | Inr self' \<Rightarrow> remove_samples self' samples)"

subsection \<open>Committing\<close>

text \<open>
  The body of the loop of \<open>apply_changes\<close> for one item \<open>(category, changes)\<close> of
  \<open>_counts_change\<close>:
  \<^verbatim>\<open>
  old_count = self.sample_counts[category]
  new_sample_count = old_count + self._sample_counts_change[category]
  r = old_count / new_sample_count
  counter = self.counts[category]
  if r != 0:
      for k in counter.keys():
          counter[k] *= r
  for k, v in changes.items():
      counter[k] += v / new_sample_count
  changes.clear()
  self.sample_counts[category] = new_sample_count
  self._sample_counts_change[category] = 0
  \<close>
  The division is Python's true division, which raises \<open>ZeroDivisionError\<close> for a zero
  divisor; every statement that can raise comes before the first mutation.
\<close>

definition rescale :: "rat \<Rightarrow> (feature \<times> rat) list \<Rightarrow> (feature \<times> rat) list" where
  "rescale r counter = (if r \<noteq> 0 then map (\<lambda>(k, v). (k, v * r)) counter else counter)"

definition add_changes :: "int \<Rightarrow> (feature \<times> int) list \<Rightarrow> (feature \<times> rat) list \<Rightarrow> (feature \<times> rat) list" where
  "add_changes new_sample_count changes counter =
     foldl (\<lambda>cn (k, v). counter_incr k (of_int v / of_int new_sample_count) cn) counter changes"

definition apply_category :: "category \<times> (feature \<times> int) list \<Rightarrow> TextClassifier \<Rightarrow> TextClassifier result" where
  "apply_category item self =
     (case item of (category, changes) \<Rightarrow>
      case map_of (sample_counts self) category of
        None \<Rightarrow> Inl (KeyError, self)
      | Some old_count \<Rightarrow>
      case map_of (sample_counts_change self) category of
        None \<Rightarrow> Inl (KeyError, self)
      | Some change \<Rightarrow>
      (let new_sample_count = old_count + change in
       if new_sample_count = 0 then Inl (ZeroDivisionError, self)
       else
         (let r = of_int old_count / of_int new_sample_count in
          case map_of (counts self) category of
            None \<Rightarrow> Inl (KeyError, self)
          | Some counter \<Rightarrow>
              Inr (self\<lparr>counts := AList.update category
                           (add_changes new_sample_count changes (rescale r counter)) (counts self),
                        counts_change := AList.update category [] (counts_change self),
                        sample_counts := AList.update category new_sample_count (sample_counts self),
                        sample_counts_change := AList.update category 0 (sample_counts_change self)\<rparr>))))"

fun for_each :: "('a \<Rightarrow> 's \<Rightarrow> 's result) \<Rightarrow> 'a list \<Rightarrow> 's \<Rightarrow> 's result" where
  "for_each body [] s = Inr s"
| "for_each body (x # xs) s =
     (case body x s of Inl e \<Rightarrow> Inl e | Inr s' \<Rightarrow> for_each body xs s')"

definition apply_changes :: "TextClassifier \<Rightarrow> TextClassifier result" where
  "apply_changes self = for_each apply_category (counts_change self) self"

subsection \<open>Scoring\<close>

text \<open>
  \<^verbatim>\<open>
  def classify_feature(self, feature):
      feature_counts = {}
      sum_ = 0
      for category, counter in self.counts.items():
          count = counter.get(feature, 0)
          sum_ += count
          feature_counts[category] = count
      probabilities = {i: 1.0 for i in self.counts.keys()}
      if sum_ == 0:
          value = 1.0 / len(feature_counts.keys())
          for i in probabilities.keys():
              probabilities[i] = value
          return probabilities
      for k, i in feature_counts.items():
          probabilities[k] = i  / sum_
      return probabilities
  \<close>
\<close>

definition tally :: "TextClassifier \<Rightarrow> feature \<Rightarrow> rat \<times> (category \<times> rat) list" where
  "tally self feature =
     foldl (\<lambda>(sum_counts, feature_counts) (category, counter).
              (let count = counter_get counter feature
               in (sum_counts + count, AList.update category count feature_counts)))
           (0, []) (counts self)"

definition classify_feature :: "TextClassifier \<Rightarrow> feature \<Rightarrow> error + (category \<times> rat) list" where
  "classify_feature self feature =
     (case tally self feature of (sum_counts, feature_counts) \<Rightarrow>
      (let probabilities = map (\<lambda>i. (i, 1::rat)) (map fst (counts self)) in
       if sum_counts = 0 then
         (if length feature_counts = 0 then Inl ZeroDivisionError
          else (let value = 1 / of_nat (length feature_counts)
                in Inr (foldl (\<lambda>p i. AList.update i value p) probabilities (map fst probabilities))))
       else Inr (foldl (\<lambda>p (k, i). AList.update k (i / sum_counts) p) probabilities feature_counts)))"

text \<open>
  \<^verbatim>\<open>
  def classify_features(self, features):
      result = Counter()
      length = 0
      for feature, count in features.items():
          length += count
          probabilities = self.classify_feature(feature)
          for i in range(count):
              for k, v in probabilities.items():
                  result[k] += v
      for k in result:
          result[k] /= length
      return result
  \<close>
\<close>

definition add_votes :: "(category \<times> rat) list \<Rightarrow> (category \<times> rat) list \<Rightarrow> (category \<times> rat) list" where
  "add_votes probabilities result = foldl (\<lambda>res (k, v). counter_incr k v res) result probabilities"

fun accumulate :: "TextClassifier \<Rightarrow> feature_counts \<Rightarrow> (category \<times> rat) list \<times> nat
    \<Rightarrow> error + ((category \<times> rat) list \<times> nat)" where
  "accumulate self [] acc = Inr acc"
| "accumulate self ((feature, count) # rest) (result, total_length) =
     (case classify_feature self feature of
        Inl e \<Rightarrow> Inl e
      | Inr probabilities \<Rightarrow>
          accumulate self rest ((add_votes probabilities ^^ count) result, total_length + count))"

definition classify_features :: "TextClassifier \<Rightarrow> feature_counts \<Rightarrow> error + (category \<times> rat) list" where
  "classify_features self features =
     (case accumulate self features ([], 0) of
        Inl e \<Rightarrow> Inl e
      | Inr (result, total_length) \<Rightarrow>
          if result = [] then Inr []
          else if total_length = 0 then Inl ZeroDivisionError
          else Inr (map (\<lambda>(k, v). (k, v / of_nat total_length)) result))"

subsection \<open>A trained model\<close>

text \<open>
  The model of the specification's end-to-end scenario: categories \<open>interesting\<close> and
  \<open>boring\<close>, one sample \<open>{rocket: 2, launch: 1}\<close> committed to the first and one sample
  \<open>{launch: 1, delay: 1}\<close> committed to the second.
\<close>

definition end_to_end :: TextClassifier where
  "end_to_end =
     \<lparr>counts_change = [(''interesting'', []), (''boring'', [])],
      counts = [(''interesting'', [(''rocket'', 2), (''launch'', 1)]),
                (''boring'', [(''launch'', 1), (''delay'', 1)])],
      sample_counts = [(''interesting'', 1), (''boring'', 1)],
      sample_counts_change = [(''interesting'', 0), (''boring'', 0)]\<rparr>"

subsection \<open>Notions the scoring claims are stated with\<close>

text \<open>
  The sum of a feature's entries over all categories, and the distribution the
  specification describes for one feature: the uniform distribution when that sum is 0,
  each category's share of the sum otherwise.
\<close>

definition feature_total :: "TextClassifier \<Rightarrow> feature \<Rightarrow> rat" where
  "feature_total self feature =
     sum_list (map (\<lambda>(category, counter). counter_get counter feature) (counts self))"

definition shares :: "TextClassifier \<Rightarrow> feature \<Rightarrow> (category \<times> rat) list" where
  "shares self feature =
     map (\<lambda>(category, counter).
            (category,
             if feature_total self feature = 0 then 1 / of_nat (length (counts self))
             else counter_get counter feature / feature_total self feature))
         (counts self)"





subsection \<open>Notions the training claims are stated with\<close>

text \<open>
  The number of times a feature occurs in one sample (for a dict, the feature's count),
  and in a batch of samples.
\<close>

definition feature_count :: "feature_counts \<Rightarrow> feature \<Rightarrow> nat" where
  "feature_count features feature = sum_list (map snd (filter (\<lambda>(k, n). k = feature) features))"

definition batch_count :: "feature_counts list \<Rightarrow> feature \<Rightarrow> nat" where
  "batch_count samples feature = sum_list (map (\<lambda>features. feature_count features feature) samples)"

text \<open>
  A model in which \<open>boring\<close> has one committed sample and \<open>interesting\<close> has none.
\<close>

definition half_trained :: TextClassifier where
  "half_trained =
     \<lparr>counts_change = [(''interesting'', []), (''boring'', [])],
      counts = [(''interesting'', []), (''boring'', [(''launch'', 1), (''delay'', 1)])],
      sample_counts = [(''interesting'', 0), (''boring'', 1)],
      sample_counts_change = [(''interesting'', 0), (''boring'', 0)]\<rparr>"

section \<open>Text normalisation (classifier.py)\<close>

text \<open>
  Texts are strings of 8-bit characters, so the model covers ASCII text: \<open>\w\<close> is a
  letter, a digit or the underscore, \<open>\d\<close> a digit, and \<open>str.lower\<close> maps \<open>A\<close> to \<open>Z\<close>
  onto \<open>a\<close> to \<open>z\<close>.  \<open>is_space\<close> holds of the characters \<open>str.split()\<close> splits at.
\<close>

definition is_word :: "char \<Rightarrow> bool" where
  "is_word c = (c \<in> set ''abcdefghijklmnopqrstuvwxyzABCDEFGHIJKLMNOPQRSTUVWXYZ0123456789_'')"

definition is_digit :: "char \<Rightarrow> bool" where
  "is_digit c = (c \<in> set ''0123456789'')"

definition is_space :: "char \<Rightarrow> bool" where
  "is_space c = (c \<in> set [CHR '' '', CHR 0x09, CHR 0x0A, CHR 0x0B, CHR 0x0C, CHR 0x0D,
                            CHR 0x1C, CHR 0x1D, CHR 0x1E, CHR 0x1F])"

definition lower_char :: "char \<Rightarrow> char" where
  "lower_char c =
     (case map_of (zip ''ABCDEFGHIJKLMNOPQRSTUVWXYZ'' ''abcdefghijklmnopqrstuvwxyz'') c of
        None \<Rightarrow> c
      | Some l \<Rightarrow> l)"

definition lower :: "string \<Rightarrow> string" where
  "lower text = map lower_char text"

text \<open>
  \<open>\b\<close> holds between two positions of which exactly one is a word character; the
  start and the end of the text count as non-word.
\<close>

definition word_boundary :: "char option \<Rightarrow> string \<Rightarrow> bool" where
  "word_boundary prev rest =
     ((case prev of None \<Rightarrow> False | Some c \<Rightarrow> is_word c)
      \<noteq> (case rest of [] \<Rightarrow> False | c # cs \<Rightarrow> is_word c))"

text \<open>
  \<open>regular_expression.sub(replacement, text)\<close> replaces the leftmost matches from left
  to right, looking for the next match where the last one ended, always in the original
  text.  A pattern is given by what it matches at one position, knowing the character
  before it: the matched text and its replacement.
\<close>

type_synonym pattern = "char option \<Rightarrow> string \<Rightarrow> (string \<times> string) option"

function sub :: "pattern \<Rightarrow> char option \<Rightarrow> string \<Rightarrow> string" where
  "sub p prev [] = []"
| "sub p prev (c # cs) =
     (case p prev (c # cs) of
        None \<Rightarrow> c # sub p (Some c) cs
      | Some (matched, replacement) \<Rightarrow>
          if matched = [] then c # sub p (Some c) cs
          else replacement @ sub p (Some (last matched)) (drop (length matched) (c # cs)))"
  by pat_completeness auto
termination
  by (relation "measure (\<lambda>(p, prev, s). length s)") auto

text \<open>
  The six entries of \<open>regular_expressions\<close>, in order:
  \<^verbatim>\<open>
  (re.compile(r'\bain\'t\b'), ''),
  (re.compile(r'\b(?P<g1>\w+)\'(s|m|d|ve|re)\b'), '\g<g1>'),
  (re.compile(r'\b(?P<g1>\w+)n\'t\b'), '\g<g1>'),
  (re.compile(r'\b(' + r'|'.join(ENGLISH_STOPWORDS) + r')\b'), ''),
  (re.compile(r'<.*?>'), ' '),
  (re.compile(r'\d+'), '')
  \<close>
  In the second, \<open>\w+\<close> can only end where the apostrophe follows, so it is the whole
  run of word characters; in the third it is the run without its last character, which
  must be \<open>n\<close>.  The stop words are taken literally, tried in the order of the list;
  an empty one matches the empty text, whose replacement changes nothing.
  In the fifth, \<open>.\<close> does not match a newline and \<open>*?\<close> stops at the first \<open>>\<close>.
\<close>

definition literal_word :: "string \<Rightarrow> char option \<Rightarrow> string \<Rightarrow> bool" where
  "literal_word w prev s =
     (word_boundary prev s \<and> take (length w) s = w
      \<and> word_boundary (if w = [] then prev else Some (last w)) (drop (length w) s))"

definition aint :: pattern where
  "aint prev s = (if literal_word ''ain't'' prev s then Some (''ain't'', []) else None)"

definition contraction :: pattern where
  "contraction prev s =
     (let g1 = takeWhile is_word s; rest = dropWhile is_word s
      in if word_boundary prev s \<and> g1 \<noteq> [] \<and> take 1 rest = [CHR 0x27]
         then (case find (\<lambda>suffix. take (length suffix) (drop 1 rest) = suffix
                            \<and> word_boundary (Some (last suffix)) (drop (1 + length suffix) rest))
                      [''s'', ''m'', ''d'', ''ve'', ''re''] of
                 None \<Rightarrow> None
               | Some suffix \<Rightarrow> Some (g1 @ take 1 rest @ suffix, g1))
         else None)"

definition negation :: pattern where
  "negation prev s =
     (let run = takeWhile is_word s; rest = dropWhile is_word s
      in if word_boundary prev s \<and> 2 \<le> length run \<and> last run = CHR ''n''
            \<and> take 2 rest = [CHR 0x27, CHR ''t'']
            \<and> word_boundary (Some (CHR ''t'')) (drop 2 rest)
         then Some (run @ take 2 rest, butlast run)
         else None)"

definition stopword :: "string list \<Rightarrow> pattern" where
  "stopword words prev s =
     (case find (\<lambda>w. w \<noteq> [] \<and> literal_word w prev s) words of
        None \<Rightarrow> None
      | Some w \<Rightarrow> Some (w, []))"

definition tag :: pattern where
  "tag prev s =
     (if take 1 s = ''<''
      then (let body = takeWhile (\<lambda>x. x \<noteq> CHR ''>'' \<and> x \<noteq> CHR 0x0A) (drop 1 s)
            in if take 1 (drop (1 + length body) s) = ''>''
               then Some (take (2 + length body) s, '' '')
               else None)
      else None)"

definition digits :: pattern where
  "digits prev s =
     (let run = takeWhile is_digit s in if run = [] then None else Some (run, []))"

definition apply_regexes :: "string list \<Rightarrow> string \<Rightarrow> string" where
  "apply_regexes stopwords text =
     foldl (\<lambda>text regular_expression. sub regular_expression None text) text
       [aint, contraction, negation, stopword stopwords, tag, digits]"

text \<open>
  \<open>tokenize_regex.findall(text)\<close> with \<open>\w+\'\w{1,2}|\w+\<close>: a run of word characters,
  with an apostrophe and one or two word characters after it when they are there.
\<close>

function tokenize :: "string \<Rightarrow> string list" where
  "tokenize [] = []"
| "tokenize (c # cs) =
     (if is_word c
      then (let run = c # takeWhile is_word cs; rest = dropWhile is_word cs;
                suffix = take 2 (takeWhile is_word (drop 1 rest))
            in if take 1 rest = [CHR 0x27] \<and> suffix \<noteq> []
               then (run @ take 1 rest @ suffix) # tokenize (drop (1 + length suffix) rest)
               else run # tokenize rest)
      else tokenize cs)"
  by pat_completeness auto
termination
proof (relation "measure length")
  show "wf (measure length)" by simp
next
  fix c :: char and cs run rest suffix
  assume "rest = dropWhile is_word cs"
  then have "length rest \<le> length cs" by (simp add: length_dropWhile_le)
  then show "(drop (1 + length suffix) rest, c # cs) \<in> measure length" by simp
next
  fix c :: char and cs run rest suffix
  assume "rest = dropWhile is_word cs"
  then have "length rest \<le> length cs" by (simp add: length_dropWhile_le)
  then show "(rest, c # cs) \<in> measure length" by simp
next
  fix c :: char and cs
  show "(cs, c # cs) \<in> measure length" by simp
qed

text \<open>
  \<open>str.split()\<close>: the maximal runs of characters that are not white space.
\<close>

function split :: "string \<Rightarrow> string list" where
  "split s =
     (case dropWhile is_space s of
        [] \<Rightarrow> []
      | c # cs \<Rightarrow> (c # takeWhile (\<lambda>x. \<not> is_space x) cs)
                   # split (dropWhile (\<lambda>x. \<not> is_space x) cs))"
  by pat_completeness auto
termination
proof (relation "measure length")
  show "wf (measure length)" by simp
next
  fix s :: string and c cs
  assume a: "dropWhile is_space s = c # cs"
  have "length (dropWhile (\<lambda>x. \<not> is_space x) cs) \<le> length cs" by (rule length_dropWhile_le)
  moreover have "length (c # cs) \<le> length s" using a length_dropWhile_le [of is_space s] by simp
  ultimately show "(dropWhile (\<lambda>x. \<not> is_space x) cs, s) \<in> measure length" by simp
qed


text \<open>
  What the normaliser takes from outside \<open>classifier.py\<close>: NLTK's stop word list and
  Porter stemmer, the irregular word table \<open>replacements\<close> (filled from a CSV file),
  and for \<open>unescape\<close> the table \<open>htmlentitydefs.name2codepoint\<close>, \<open>int(text, base)\<close>
  (\<open>None\<close> when it raises \<open>ValueError\<close>) and \<open>chr\<close>, which raises \<open>ValueError\<close> or
  \<open>OverflowError\<close> for a number that is no code point.
\<close>

record resources =
  ENGLISH_STOPWORDS :: "string list"
  stem :: "string \<Rightarrow> string"
  replacements :: "(string \<times> string) list"
  name2codepoint :: "string \<Rightarrow> nat option"
  py_int :: "string \<Rightarrow> nat \<Rightarrow> nat option"
  py_chr :: "nat \<Rightarrow> error + string"

text \<open>
  \<open>unescape\<close> replaces every match of \<open>&#?\w+;\<close> by \<open>fixup\<close> of the match (the
  conversion \<open>unicode_(text)\<close> before it leaves a text as it is).  An exception that
  \<open>fixup\<close> does not catch ends the substitution.
  \<^verbatim>\<open>
  def fixup(m):
      text = m.group(0)
      if text[:2] == "&#":
          try:
              if text[:3] == "&#x":
                  return chr(int(text[3:-1], 16))
              else:
                  return chr(int(text[2:-1]))
          except ValueError:
              pass
      else:
          try:
              text = chr(htmlentitydefs.name2codepoint[text[1:-1]])
          except KeyError:
              pass
      return text
  \<close>
\<close>

definition entity :: "string \<Rightarrow> string option" where
  "entity s =
     (if take 1 s = ''&''
      then (let hash = (if take 1 (drop 1 s) = ''#'' then 1 else 0);
                name = takeWhile is_word (drop (1 + hash) s)
            in if name \<noteq> [] \<and> take 1 (drop (1 + hash + length name) s) = '';''
               then Some (take (2 + hash + length name) s)
               else None)
      else None)"

definition fixup :: "('a resources_scheme) \<Rightarrow> string \<Rightarrow> error + string" where
  "fixup lib text =
     (if take 2 text = ''&#''
      then (case (if take 3 text = ''&#x'' then py_int lib (drop 3 (butlast text)) 16
                  else py_int lib (drop 2 (butlast text)) 10) of
              None \<Rightarrow> Inr text
            | Some n \<Rightarrow>
                (case py_chr lib n of
                   Inl e \<Rightarrow> if e = ValueError then Inr text else Inl e
                 | Inr character \<Rightarrow> Inr character))
      else (case name2codepoint lib (drop 1 (butlast text)) of
              None \<Rightarrow> Inr text
            | Some n \<Rightarrow> py_chr lib n))"

function unescape_from :: "('a resources_scheme) \<Rightarrow> string \<Rightarrow> error + string" where
  "unescape_from lib [] = Inr []"
| "unescape_from lib (c # cs) =
     (case entity (c # cs) of
        None \<Rightarrow> (case unescape_from lib cs of Inl e \<Rightarrow> Inl e | Inr r \<Rightarrow> Inr (c # r))
      | Some matched \<Rightarrow>
          (case fixup lib matched of
             Inl e \<Rightarrow> Inl e
           | Inr replacement \<Rightarrow>
               (case unescape_from lib (drop (length matched - 1) cs) of
                  Inl e \<Rightarrow> Inl e
                | Inr r \<Rightarrow> Inr (replacement @ r))))"
  by pat_completeness auto
termination
  by (relation "measure (\<lambda>(lib, s). length s)") auto

definition unescape :: "('a resources_scheme) \<Rightarrow> string \<Rightarrow> error + string" where
  "unescape lib text = unescape_from lib text"

text \<open>
  \<^verbatim>\<open>
  def replace_irregular_words(words):
      new = []
      for i in words:
          replacement = TextClassifier.replacements.get(i, i).split()
          for j in replacement:
              new.append(TextClassifier.stemmer.stem(j))
      return new

  def prepare_words(text):
      text = TextClassifier.apply_regexes(TextClassifier.unescape(text.lower()))
      text = TextClassifier.tokenize(text)
      return TextClassifier.replace_irregular_words(text)
  \<close>
\<close>

definition replace_irregular_words :: "('a resources_scheme) \<Rightarrow> string list \<Rightarrow> string list" where
  "replace_irregular_words lib words =
     concat (map (\<lambda>i. map (stem lib)
                          (split (case map_of (replacements lib) i of None \<Rightarrow> i | Some r \<Rightarrow> r)))
                 words)"

definition prepare_words :: "('a resources_scheme) \<Rightarrow> string \<Rightarrow> error + string list" where
  "prepare_words lib text =
     (case unescape lib (lower text) of
        Inl e \<Rightarrow> Inl e
      | Inr text1 \<Rightarrow>
          Inr (replace_irregular_words lib
                 (tokenize (apply_regexes (ENGLISH_STOPWORDS lib) text1))))"

text \<open>
  \<open>Counter(words)\<close> counts the occurrences of every word, in the order of first
  occurrence; \<open>prepare_counter(text)\<close> is \<open>Counter(prepare_words(text))\<close>.
\<close>

definition Counter :: "string list \<Rightarrow> feature_counts" where
  "Counter words = foldl (\<lambda>self elem. counter_incr elem 1 self) [] words"

definition prepare_counter :: "('a resources_scheme) \<Rightarrow> string \<Rightarrow> error + feature_counts" where
  "prepare_counter lib text =
     (case prepare_words lib text of
        Inl e \<Rightarrow> Inl e
      | Inr words \<Rightarrow> Inr (Counter words))"

text \<open>
  Stand-ins for concrete runs: the stop words \<open>a\<close> and \<open>it\<close> (both are in NLTK's
  English list), a stemmer that returns the word, no irregular words and no entities.
\<close>

definition stub_resources :: resources where
  "stub_resources =
     \<lparr>ENGLISH_STOPWORDS = [''a'', ''it''],
      stem = (\<lambda>word. word),
      replacements = [],
      name2codepoint = (\<lambda>name. None),
      py_int = (\<lambda>digits base. None),
      py_chr = (\<lambda>n. Inl ValueError)\<rparr>"

subsection \<open>Stop word lists\<close>



section \<open>Loading and saving the model (db_functions.py)\<close>

text \<open>
  An article is the record the corpus supplies; the classifier reads its title and its
  summary.  The database holds the settings table that \<open>get_var\<close> and \<open>set_var\<close> read
  and write (\<open>get_var\<close> returns the default when no row is found, \<open>set_var\<close> inserts
  or updates) and the two article tables that \<open>get_interesting_articles\<close> and
  \<open>get_blacklist\<close> read.
\<close>

record article =
  title :: string
  summary :: string

record database =
  variables :: "(string \<times> string) list"
  history :: "article list"
  blacklist :: "article list"

definition get_var :: "database \<Rightarrow> string \<Rightarrow> string \<Rightarrow> string" where
  "get_var db name default' = (case map_of (variables db) name of None \<Rightarrow> default' | Some v \<Rightarrow> v)"

definition set_var :: "database \<Rightarrow> string \<Rightarrow> string \<Rightarrow> database" where
  "set_var db name v = db\<lparr>variables := AList.update name v (variables db)\<rparr>"

text \<open>
  \<open>json.loads\<close> and \<open>json.dumps\<close> belong to the Python library and are parameters:
  \<open>loads_counts\<close> is \<open>json.loads\<close> followed by the conversion of every value to a
  \<open>Counter\<close>, \<open>loads_sample_counts\<close> is \<open>json.loads\<close>, and \<open>None\<close> stands for the
  \<open>ValueError\<close> of a text that is not JSON (the empty default of an absent variable is
  such a text).  A text that is JSON of another shape is outside this model.
\<close>

record json_module =
  loads_counts :: "string \<Rightarrow> (category \<times> (feature \<times> rat) list) list option"
  loads_sample_counts :: "string \<Rightarrow> (category \<times> int) list option"
  dumps_counts :: "(category \<times> (feature \<times> rat) list) list \<Rightarrow> string"
  dumps_sample_counts :: "(category \<times> int) list \<Rightarrow> string"

definition saveClassifier :: "json_module \<Rightarrow> database \<Rightarrow> TextClassifier \<Rightarrow> database" where
  "saveClassifier json db classifier =
     set_var (set_var db ''classifier_counts'' (dumps_counts json (counts classifier)))
       ''classifier_sample_counts'' (dumps_sample_counts json (sample_counts classifier))"

text \<open>
  \<^verbatim>\<open>
  def add_article(self, article, category):
      self.add_sample(TextClassifier.prepare_counter(article['title'] + ' ' + article['summary']), category)
  \<close>
\<close>

definition add_article ::
  "('a resources_scheme) \<Rightarrow> TextClassifier \<Rightarrow> article \<Rightarrow> category \<Rightarrow> TextClassifier result" where
  "add_article lib self article category =
     (case prepare_counter lib (title article @ '' '' @ summary article) of
        Inl e \<Rightarrow> Inl (e, self)
      | Inr features \<Rightarrow> add_sample self features category)"

text \<open>
  \<^verbatim>\<open>
  def loadClassifier(interesting_articles=None, blacklist=None):
      classifier_counts = get_var('classifier_counts', '')
      classifier_sample_counts = get_var('classifier_sample_counts', '')
      classifier = TextClassifier(['interesting', 'boring'])
      try:
          classifier.counts = {k: Counter(v) for k, v in json.loads(classifier_counts).items()}
          classifier.sample_counts = json.loads(classifier_sample_counts)
      except ValueError:
          if interesting_articles is None:
              interesting_articles = get_interesting_articles()
          if blacklist is None:
              blacklist = get_blacklist()
          for i in interesting_articles:
              classifier.add_article(i, 'interesting')
          for i in blacklist:
              classifier.add_article(i, 'boring')
          classifier.apply_changes()
          saveClassifier(classifier)
      return classifier
  \<close>
  \<open>retrain\<close> is the \<open>except\<close> branch.  It runs on the classifier as the \<open>try\<close> block
  left it: when the first assignment was executed and the second \<open>json.loads\<close> raised,
  \<open>counts\<close> already holds the loaded tables.  An exception of the branch leaves the
  function before \<open>saveClassifier\<close>.
\<close>

definition retrain ::
  "json_module \<Rightarrow> ('a resources_scheme) \<Rightarrow> database \<Rightarrow> TextClassifier
     \<Rightarrow> article list option \<Rightarrow> article list option \<Rightarrow> TextClassifier result \<times> database" where
  "retrain json lib db classifier interesting_articles blacklist' =
     (let interesting_articles1 =
            (case interesting_articles of None \<Rightarrow> history db | Some articles \<Rightarrow> articles);
          blacklist1 = (case blacklist' of None \<Rightarrow> blacklist db | Some articles \<Rightarrow> articles)
      in case for_each (\<lambda>i self. add_article lib self i ''interesting'')
                interesting_articles1 classifier of
           Inl e \<Rightarrow> (Inl e, db)
         | Inr classifier1 \<Rightarrow>
       (case for_each (\<lambda>i self. add_article lib self i ''boring'')
                blacklist1 classifier1 of
           Inl e \<Rightarrow> (Inl e, db)
         | Inr classifier2 \<Rightarrow>
       (case apply_changes classifier2 of
           Inl e \<Rightarrow> (Inl e, db)
         | Inr classifier3 \<Rightarrow> (Inr classifier3, saveClassifier json db classifier3))))"

definition loadClassifier ::
  "json_module \<Rightarrow> ('a resources_scheme) \<Rightarrow> database
     \<Rightarrow> article list option \<Rightarrow> article list option \<Rightarrow> TextClassifier result \<times> database" where
  "loadClassifier json lib db interesting_articles blacklist' =
     (let classifier_counts = get_var db ''classifier_counts'' '''';
          classifier_sample_counts = get_var db ''classifier_sample_counts'' '''';
          classifier = init [''interesting'', ''boring'']
      in case loads_counts json classifier_counts of
           None \<Rightarrow> retrain json lib db classifier interesting_articles blacklist'
         | Some loaded_counts \<Rightarrow>
             (let classifier1 = classifier\<lparr>counts := loaded_counts\<rparr>
              in case loads_sample_counts json classifier_sample_counts of
                   None \<Rightarrow>
                     retrain json lib db classifier1 interesting_articles blacklist'
                 | Some loaded_sample_counts \<Rightarrow>
                     (Inr (classifier1\<lparr>sample_counts := loaded_sample_counts\<rparr>), db)))"

text \<open>
  A stand-in for the JSON module, for concrete runs: it knows one stored text for the
  tables and no text for the sample counts.
\<close>

definition stub_json :: json_module where
  "stub_json =
     \<lparr>loads_counts = (\<lambda>s. if s = ''stored counts''
                          then Some [(''interesting'', [(''stale'', 1)]), (''boring'', [])]
                          else None),
      loads_sample_counts = (\<lambda>s. None),
      dumps_counts = (\<lambda>c. ''saved counts''),
      dumps_sample_counts = (\<lambda>c. ''saved sample counts'')\<rparr>"

section \<open>Concrete runs\<close>

lemma init_two:
  "init [''interesting'', ''boring''] =
     \<lparr>counts_change = [(''interesting'', []), (''boring'', [])],
      counts = [(''interesting'', []), (''boring'', [])],
      sample_counts = [(''interesting'', 0), (''boring'', 0)],
      sample_counts_change = [(''interesting'', 0), (''boring'', 0)]\<rparr>"
  by (simp add: init_def init_category_def)

lemmas run_defs =
  add_sample_def remove_sample_def counter_iadd_def counter_isub_def counter_incr_def
  counter_get_def keep_positive_def apply_changes_def apply_category_def rescale_def
  add_changes_def

lemma end_to_end_trained:
  "\<exists>a. add_samples (init [''interesting'', ''boring''])
          [([(''rocket'', 2), (''launch'', 1)], ''interesting''),
           ([(''launch'', 1), (''delay'', 1)], ''boring'')] = Inr a
       \<and> apply_changes a = Inr end_to_end"
  by (simp add: init_two run_defs end_to_end_def)

text \<open>
  Whatever is subtracted, the counter that \<open>-=\<close> leaves holds positive counts only: a
  staged feature delta is never negative.
\<close>

lemma counter_isub_positive: "(k, v) \<in> set (counter_isub c other) \<Longrightarrow> 0 < v"
  by (auto simp: counter_isub_def keep_positive_def)

text \<open>
  Claim C1 (the code departs from it).  On a freshly constructed model nothing is staged
  and every sample count is 0, so the new total of the first category is 0:
  \<open>apply_changes\<close> evaluates \<open>old_count / new_sample_count\<close> with no test before it,
  and the call ends in \<open>ZeroDivisionError\<close> instead of completing.
\<close>

theorem apply_changes_fresh_raises:
  "apply_changes (init [''interesting'', ''boring''])
     = Inl (ZeroDivisionError, init [''interesting'', ''boring''])"
  by (simp add: init_two apply_changes_def apply_category_def)

text \<open>
  Claim C3 (the code departs from it).  \<open>Counter.__isub__\<close> keeps only positive counts,
  so removing the sample \<open>{x: 1}\<close> from a category with nothing staged leaves the staged
  feature deltas empty, where the claim has the delta \<open>x: -1\<close>; only the staged sample
  count goes down by 1.
\<close>

theorem remove_sample_stages_nothing:
  "remove_sample (init [''interesting'', ''boring'']) [(''x'', 1)] ''interesting''
     = Inr \<lparr>counts_change = [(''interesting'', []), (''boring'', [])],
            counts = [(''interesting'', []), (''boring'', [])],
            sample_counts = [(''interesting'', 0), (''boring'', 0)],
            sample_counts_change = [(''interesting'', - 1), (''boring'', 0)]\<rparr>"
  by (simp add: init_two remove_sample_def counter_isub_def counter_incr_def counter_get_def
      keep_positive_def)

text \<open>
  Claim C2 (the code departs from it).  On the trained model, adding the sample
  \<open>{x: 1}\<close> to \<open>interesting\<close>, committing, removing the same sample and committing
  again brings the sample counts back, but the frequency table keeps the entry
  \<open>x: 1\<close> it did not have before: the removal staged no negative delta, and the commit
  only rescaled the table by 2/1.
\<close>

theorem add_apply_remove_apply_keeps_sample:
  "\<exists>a1 m1 a2 m2.
     add_sample end_to_end [(''x'', 1)] ''interesting'' = Inr a1 \<and> apply_changes a1 = Inr m1
     \<and> remove_sample m1 [(''x'', 1)] ''interesting'' = Inr a2 \<and> apply_changes a2 = Inr m2
     \<and> map_of (counts end_to_end) ''interesting'' = Some [(''rocket'', 2), (''launch'', 1)]
     \<and> map_of (counts m2) ''interesting'' = Some [(''rocket'', 2), (''launch'', 1), (''x'', 1)]
     \<and> sample_counts m2 = sample_counts end_to_end"
  by (simp add: end_to_end_def run_defs)

section \<open>Staging leaves the committed state alone\<close>

lemma counts_add_sample: "counts (state_after (add_sample self features category)) = counts self"
  by (simp add: add_sample_def state_after_def Let_def split: option.splits)

lemma sample_counts_add_sample:
  "sample_counts (state_after (add_sample self features category)) = sample_counts self"
  by (simp add: add_sample_def state_after_def Let_def split: option.splits)

lemma counts_remove_sample:
  "counts (state_after (remove_sample self features category)) = counts self"
  by (simp add: remove_sample_def state_after_def Let_def split: option.splits)

lemma sample_counts_remove_sample:
  "sample_counts (state_after (remove_sample self features category)) = sample_counts self"
  by (simp add: remove_sample_def state_after_def Let_def split: option.splits)

text \<open>
  Claim C10.  Whatever the feature counts and the category, and whether the call returns
  or raises \<open>KeyError\<close>, \<open>add_sample\<close> and \<open>remove_sample\<close> leave the committed
  dictionaries \<open>counts\<close> and \<open>sample_counts\<close> exactly as they were.
\<close>

theorem staging_keeps_committed_state:
  "counts (state_after (add_sample self features category)) = counts self
   \<and> sample_counts (state_after (add_sample self features category)) = sample_counts self
   \<and> counts (state_after (remove_sample self features category)) = counts self
   \<and> sample_counts (state_after (remove_sample self features category)) = sample_counts self"
  by (simp only: counts_add_sample sample_counts_add_sample counts_remove_sample
      sample_counts_remove_sample)

section \<open>Scoring an empty text\<close>

text \<open>
  Claim C8.  For an empty feature mapping the loop of \<open>classify_features\<close> has no
  iteration, the result counter stays empty, so the closing loop divides nothing: the
  call returns the empty mapping and raises no \<open>ZeroDivisionError\<close>.
\<close>

theorem classify_features_empty: "classify_features self [] = Inr []"
  by (simp add: classify_features_def)

section \<open>Facts about dictionaries and counters\<close>

lemma update_fresh: "k \<notin> fst ` set al \<Longrightarrow> AList.update k v al = al @ [(k, v)]"
  by (induction al) auto

lemma update_middle:
  "k \<notin> fst ` set pre \<Longrightarrow> AList.update k v (pre @ (k, x) # post) = pre @ (k, v) # post"
  by (induction pre) auto

lemma counter_get_Cons:
  "counter_get ((k, v) # c) k' = (if k' = k then v else counter_get c k')"
  by (simp add: counter_get_def)

lemma counter_get_Nil: "counter_get [] k = 0"
  by (simp add: counter_get_def)

lemma counter_get_absent: "k \<notin> fst ` set c \<Longrightarrow> counter_get c k = 0"
  using map_of_eq_None_iff [of c k] by (simp add: counter_get_def)

lemma counter_get_incr:
  "counter_get (counter_incr k v c) k' = (if k' = k then counter_get c k + v else counter_get c k')"
  by (simp add: counter_incr_def counter_get_def update_conv')







section \<open>The distribution of one feature\<close>

lemma tally_fold:
  "distinct (map fst xs) \<Longrightarrow> fst ` set xs \<inter> fst ` set fc = {} \<Longrightarrow>
   foldl (\<lambda>(s, feature_counts) (category, counter).
              (let count = counter_get counter feature
               in (s + count, AList.update category count feature_counts)))
         (s0, fc) xs
   = (s0 + sum_list (map (\<lambda>(category, counter). counter_get counter feature) xs),
      fc @ map (\<lambda>(category, counter). (category, counter_get counter feature)) xs)"
proof (induction xs arbitrary: s0 fc)
  case Nil
  then show ?case by simp
next
  case (Cons x xs)
  obtain c cn where x: "x = (c, cn)" by (cases x)
  have fresh: "c \<notin> fst ` set fc" using Cons.prems(2) x by auto
  have disj: "fst ` set xs \<inter> fst ` set (fc @ [(c, counter_get cn feature)]) = {}"
    using Cons.prems x by auto
  have dist: "distinct (map fst xs)" using Cons.prems(1) by simp
  show ?case
    using Cons.IH [OF dist disj, of "s0 + counter_get cn feature"]
    by (simp add: x Let_def update_fresh [OF fresh] add.assoc)
qed

lemma tally_eq:
  "distinct (map fst (counts self)) \<Longrightarrow>
   tally self feature =
     (sum_list (map (\<lambda>(category, counter). counter_get counter feature) (counts self)),
      map (\<lambda>(category, counter). (category, counter_get counter feature)) (counts self))"
  unfolding tally_def using tally_fold [of "counts self" "[]" feature 0] by simp

lemma overwrite_fold:
  "distinct (map fst (pre @ al)) \<Longrightarrow> map fst al = map fst bl \<Longrightarrow>
   foldl (\<lambda>p (k, i). AList.update k (g i) p) (pre @ al) bl = pre @ map (\<lambda>(k, i). (k, g i)) bl"
proof (induction bl arbitrary: pre al)
  case Nil
  then show ?case by simp
next
  case (Cons b bl)
  obtain k i where b: "b = (k, i)" by (cases b)
  from Cons.prems(2) b obtain x al' where al: "al = (k, x) # al'" and keys: "map fst al' = map fst bl"
    by (cases al) auto
  have fresh: "k \<notin> fst ` set pre" using Cons.prems(1) al by auto
  have dist: "distinct (map fst ((pre @ [(k, g i)]) @ al'))" using Cons.prems(1) al by auto
  show ?case
    using Cons.IH [OF dist keys]
    by (simp add: b al update_middle [OF fresh])
qed

lemma overwrite_all:
  "distinct (map fst al) \<Longrightarrow> map fst al = map fst bl \<Longrightarrow>
   foldl (\<lambda>p (k, i). AList.update k (g i) p) al bl = map (\<lambda>(k, i). (k, g i)) bl"
  using overwrite_fold [of "[]" al bl g] by simp

lemma classify_feature_eq:
  assumes "distinct (map fst (counts self))" and "counts self \<noteq> []"
  shows "classify_feature self feature =
     Inr (map (\<lambda>(category, counter).
            (category,
             if sum_list (map (\<lambda>(category, counter). counter_get counter feature) (counts self)) = 0
             then 1 / of_nat (length (counts self))
             else counter_get counter feature
                  / sum_list (map (\<lambda>(category, counter). counter_get counter feature) (counts self))))
          (counts self))"
proof -
  let ?S = "sum_list (map (\<lambda>(category, counter). counter_get counter feature) (counts self))"
  let ?fc = "map (\<lambda>(category, counter). (category, counter_get counter feature)) (counts self)"
  let ?pr = "map (\<lambda>i. (i, 1::rat)) (map fst (counts self))"
  have d: "distinct (map fst ?pr)" using assms(1) by (simp add: comp_def)
  have k1: "map fst ?pr = map fst ?fc" by (induction "counts self") (auto simp: comp_def case_prod_beta)
  have uni: "foldl (\<lambda>p i. AList.update i v p) ?pr (map fst ?pr) = map (\<lambda>(k, i). (k, v)) ?pr" for v :: rat
    using overwrite_all [OF d refl, of "\<lambda>_. v"] by (simp add: foldl_map case_prod_beta)
  have sh: "foldl (\<lambda>p (k, i). AList.update k (i / ?S) p) ?pr ?fc = map (\<lambda>(k, i). (k, i / ?S)) ?fc"
    using overwrite_all [OF d k1, of "\<lambda>i. i / ?S"] by simp
  show ?thesis
  proof (cases "?S = 0")
    case True
    then show ?thesis
      using assms uni [of "1 / of_nat (length (counts self))"]
      by (simp add: classify_feature_def tally_eq Let_def comp_def case_prod_beta)
  next
    case False
    then show ?thesis
      using assms sh
      by (simp add: classify_feature_def tally_eq Let_def comp_def case_prod_beta)
  qed
qed

lemma classify_feature_is_shares:
  assumes "distinct (map fst (counts self))" and "counts self \<noteq> []"
  shows "classify_feature self feature = Inr (shares self feature)"
  unfolding shares_def feature_total_def by (rule classify_feature_eq [OF assms])




text \<open>
  Claim C5.  In a model with at least one category (the categories being the distinct
  keys of \<open>counts\<close>), \<open>classify_feature\<close> returns one entry per category, in the
  order of the categories: \<open>1 / |categories|\<close> for each when the feature's entries sum
  to 0 over all categories (in particular when the feature is in no table), and
  otherwise the category's entry \<open>counter.get(feature, 0)\<close> divided by that sum.
\<close>

theorem classify_feature_shares:
  assumes "distinct (map fst (counts self))" and "counts self \<noteq> []"
  shows "classify_feature self feature =
     Inr (map (\<lambda>(category, counter).
            (category,
             if feature_total self feature = 0 then 1 / of_nat (length (counts self))
             else counter_get counter feature / feature_total self feature))
          (counts self))"
  using classify_feature_is_shares [OF assms] by (simp add: shares_def)

theorem classify_feature_shares_witness:
  "distinct (map fst (counts end_to_end)) \<and> counts end_to_end \<noteq> []
   \<and> classify_feature end_to_end ''launch'' = Inr [(''interesting'', 1 / 2), (''boring'', 1 / 2)]
   \<and> classify_feature end_to_end ''rocket'' = Inr [(''interesting'', 1), (''boring'', 0)]
   \<and> classify_feature end_to_end ''moon'' = Inr [(''interesting'', 1 / 2), (''boring'', 1 / 2)]"
proof -
  have d: "distinct (map fst (counts end_to_end))" and n: "counts end_to_end \<noteq> []"
    by (simp_all add: end_to_end_def)
  show ?thesis
    using d n classify_feature_shares [OF d n, of "''launch''"]
      classify_feature_shares [OF d n, of "''rocket''"]
      classify_feature_shares [OF d n, of "''moon''"]
    by (simp add: end_to_end_def feature_total_def counter_get_def)
qed

section \<open>The vote average\<close>













lemma spec_scenario:
  "classify_features end_to_end [(''launch'', 1)] = Inr [(''interesting'', 1 / 2), (''boring'', 1 / 2)]"
  by (simp add: classify_features_def classify_feature_def tally_def add_votes_def counter_incr_def
      counter_get_def end_to_end_def)

lemma example_score:
  "classify_features end_to_end [(''rocket'', 2), (''delay'', 1), (''moon'', 1)]
     = Inr [(''interesting'', 5 / 8), (''boring'', 3 / 8)]"
  by (simp add: classify_features_def classify_feature_def tally_def add_votes_def counter_incr_def
      counter_get_def end_to_end_def numeral_2_eq_2)



section \<open>Staging and committing one category\<close>

lemma feature_count_dict:
  "distinct (map fst features) \<Longrightarrow> feature_count features feature = counter_get features feature"
proof (induction features)
  case Nil
  then show ?case by (simp add: feature_count_def counter_get_def)
next
  case (Cons x features)
  obtain k n where x: "x = (k, n)" by (cases x)
  show ?case
  proof (cases "k = feature")
    case True
    then have "feature \<notin> fst ` set features" using Cons.prems x by auto
    then have "filter (\<lambda>(k, n). k = feature) features = []"
      by (force simp: filter_empty_conv)
    then show ?thesis using True x by (simp add: feature_count_def counter_get_Cons)
  next
    case False
    then show ?thesis using Cons x by (simp add: feature_count_def counter_get_Cons)
  qed
qed

lemma distinct_incr: "distinct (map fst c) \<Longrightarrow> distinct (map fst (counter_incr k v c))"
  by (simp add: counter_incr_def distinct_update)

lemma distinct_fold_incr:
  "distinct (map fst c) \<Longrightarrow>
   distinct (map fst (foldl (\<lambda>s (elem, count). counter_incr elem (g count) s) c other))"
  by (induction other arbitrary: c) (auto simp: distinct_incr)

lemma counter_get_fold_incr:
  "counter_get (foldl (\<lambda>s (elem, count). counter_incr elem (int count) s) c other) feature
     = counter_get c feature + int (feature_count other feature)"
proof (induction other arbitrary: c)
  case Nil
  then show ?case by (simp add: feature_count_def)
next
  case (Cons x other)
  obtain k n where x: "x = (k, n)" by (cases x)
  have "feature_count (x # other) feature
          = (if k = feature then n else 0) + feature_count other feature"
    by (simp add: feature_count_def x)
  then show ?case using Cons [of "counter_incr k (int n) c"]
    by (simp add: x counter_get_incr)
qed

lemma counter_get_keep_positive:
  "distinct (map fst c) \<Longrightarrow>
   counter_get (keep_positive c) k = (if 0 < counter_get c k then counter_get c k else 0)"
proof (induction c)
  case Nil
  then show ?case by (simp add: keep_positive_def counter_get_def)
next
  case (Cons x c)
  obtain k' v where x: "x = (k', v)" by (cases x)
  have IH: "counter_get (keep_positive c) k = (if 0 < counter_get c k then counter_get c k else 0)"
    using Cons by simp
  show ?case
  proof (cases "k' = k")
    case True
    then have "k \<notin> fst ` set c" using Cons.prems x by auto
    then have "counter_get c k = 0" by (rule counter_get_absent)
    then have "counter_get (keep_positive c) k = 0" using IH by simp
    then show ?thesis using True x
      by (simp add: keep_positive_def counter_get_Cons)
  next
    case False
    then show ?thesis using IH x
      by (simp add: keep_positive_def counter_get_Cons)
  qed
qed

lemma distinct_keep_positive: "distinct (map fst c) \<Longrightarrow> distinct (map fst (keep_positive c))"
  by (simp add: keep_positive_def distinct_map_filter)

lemma distinct_iadd: "distinct (map fst c) \<Longrightarrow> distinct (map fst (counter_iadd c other))"
  unfolding counter_iadd_def by (intro distinct_keep_positive distinct_fold_incr)

lemma counter_get_iadd:
  assumes "distinct (map fst c)" and "0 \<le> counter_get c feature"
  shows "counter_get (counter_iadd c other) feature
           = counter_get c feature + int (feature_count other feature)"
  unfolding counter_iadd_def
  using assms
  by (simp add: counter_get_keep_positive distinct_fold_incr counter_get_fold_incr)

lemma counter_get_rescale:
  "counter_get (rescale r counter) k
     = (if r \<noteq> 0 then counter_get counter k * r else counter_get counter k)"
proof -
  have "map_of (map (\<lambda>(k, v). (k, v * r)) counter) k = map_option (\<lambda>v. v * r) (map_of counter k)"
    by (induction counter) auto
  then show ?thesis by (simp add: rescale_def counter_get_def split: option.splits)
qed

lemma counter_get_add_changes:
  "distinct (map fst changes) \<Longrightarrow>
   counter_get (add_changes n changes counter) k
     = counter_get counter k + of_int (counter_get changes k) / of_int n"
  unfolding add_changes_def
proof (induction changes arbitrary: counter)
  case Nil
  then show ?case by (simp add: counter_get_Nil)
next
  case (Cons x changes)
  obtain k' v where x: "x = (k', v)" by (cases x)
  have d: "distinct (map fst changes)" and fresh: "k' \<notin> fst ` set changes"
    using Cons.prems x by auto
  show ?case
    using Cons.IH [OF d, of "counter_incr k' (of_int v / of_int n) counter"]
      counter_get_absent [OF fresh]
    by (simp add: x counter_get_incr counter_get_Cons)
qed

lemma keys_update_known:
  "map_of al k = Some v \<Longrightarrow> map fst (AList.update k v' al) = map fst al"
proof -
  assume "map_of al k = Some v"
  then have "(k, v) \<in> set al" by (rule map_of_SomeD)
  then have "k \<in> set (map fst al)" by force
  then show ?thesis by (simp add: update_keys)
qed

lemma add_sample_known:
  assumes "map_of (counts_change s) c = Some ch" and "map_of (sample_counts_change s) c = Some d"
  shows "add_sample s features c =
    Inr (s\<lparr>counts_change := AList.update c (counter_iadd ch features) (counts_change s),
           sample_counts_change := AList.update c (d + 1) (sample_counts_change s)\<rparr>)"
  using assms by (simp add: add_sample_def Let_def)

lemma add_samples_category:
  assumes "map_of (counts_change s) c = Some ch" and "map_of (sample_counts_change s) c = Some d"
    and "distinct (map fst ch)" and "0 \<le> counter_get ch f"
  shows "\<exists>s' ch'. add_samples s (map (\<lambda>x. (x, c)) S) = Inr s'
           \<and> counts s' = counts s \<and> sample_counts s' = sample_counts s
           \<and> map fst (counts_change s') = map fst (counts_change s)
           \<and> map_of (counts_change s') c = Some ch' \<and> distinct (map fst ch')
           \<and> counter_get ch' f = counter_get ch f + int (batch_count S f)
           \<and> map_of (sample_counts_change s') c = Some (d + int (length S))"
  using assms
proof (induction S arbitrary: s ch d)
  case Nil
  then show ?case by (simp add: batch_count_def)
next
  case (Cons x S)
  let ?ch = "counter_iadd ch x"
  let ?s = "s\<lparr>counts_change := AList.update c ?ch (counts_change s),
              sample_counts_change := AList.update c (d + 1) (sample_counts_change s)\<rparr>"
  have step: "add_sample s x c = Inr ?s" by (rule add_sample_known [OF Cons.prems(1,2)])
  have 1: "map_of (counts_change ?s) c = Some ?ch" by (simp add: update_conv')
  have 2: "map_of (sample_counts_change ?s) c = Some (d + 1)" by (simp add: update_conv')
  have 3: "distinct (map fst ?ch)" by (rule distinct_iadd [OF Cons.prems(3)])
  have val: "counter_get ?ch f = counter_get ch f + int (feature_count x f)"
    by (rule counter_get_iadd [OF Cons.prems(3,4)])
  then have 4: "0 \<le> counter_get ?ch f" using Cons.prems(4) by simp
  from Cons.IH [OF 1 2 3 4] obtain s' ch' where
    r: "add_samples ?s (map (\<lambda>x. (x, c)) S) = Inr s'"
    and c1: "counts s' = counts ?s" and c2: "sample_counts s' = sample_counts ?s"
    and k: "map fst (counts_change s') = map fst (counts_change ?s)"
    and l: "map_of (counts_change s') c = Some ch'" and dd: "distinct (map fst ch')"
    and v: "counter_get ch' f = counter_get ?ch f + int (batch_count S f)"
    and n: "map_of (sample_counts_change s') c = Some (d + 1 + int (length S))"
    by blast
  have "add_samples s (map (\<lambda>x. (x, c)) (x # S)) = Inr s'" using step r by simp
  moreover have "map fst (counts_change s') = map fst (counts_change s)"
    using k keys_update_known [OF Cons.prems(1)] by simp
  moreover have "counter_get ch' f = counter_get ch f + int (batch_count (x # S) f)"
    using v val by (simp add: batch_count_def)
  moreover have "map_of (sample_counts_change s') c = Some (d + int (length (x # S)))"
    using n by (simp add: add.commute add.left_commute)
  ultimately show ?case using c1 c2 l dd by auto
qed

lemma apply_category_known:
  assumes "map_of (sample_counts s) c = Some old" and "map_of (sample_counts_change s) c = Some d"
    and "map_of (counts s) c = Some counter" and "old + d \<noteq> 0"
  shows "apply_category (c, ch) s =
    Inr (s\<lparr>counts := AList.update c
              (add_changes (old + d) ch (rescale (of_int old / of_int (old + d)) counter)) (counts s),
           counts_change := AList.update c [] (counts_change s),
           sample_counts := AList.update c (old + d) (sample_counts s),
           sample_counts_change := AList.update c 0 (sample_counts_change s)\<rparr>)"
  using assms by (simp add: apply_category_def Let_def)

lemma apply_category_raises:
  assumes "map_of (sample_counts s) c = Some old" and "map_of (sample_counts_change s) c = Some d"
    and "old + d = 0"
  shows "apply_category (c, ch) s = Inl (ZeroDivisionError, s)"
  using assms by (simp add: apply_category_def Let_def)

lemma apply_category_other:
  assumes "apply_category (c', ch) s = Inr s'" and "c' \<noteq> c"
  shows "map_of (counts s') c = map_of (counts s) c
       \<and> map_of (counts_change s') c = map_of (counts_change s) c
       \<and> map_of (sample_counts s') c = map_of (sample_counts s) c
       \<and> map_of (sample_counts_change s') c = map_of (sample_counts_change s) c"
  using assms
  by (auto simp: apply_category_def Let_def update_conv' split: option.splits if_splits)

lemma apply_category_distinct:
  assumes "apply_category item s = Inr s'" and "distinct (map fst (counts_change s))"
  shows "distinct (map fst (counts_change s'))"
  using assms
  by (cases item)
     (auto simp: apply_category_def Let_def distinct_update split: option.splits if_splits)

lemma for_each_other:
  assumes "for_each apply_category items s = Inr s'" and "c \<notin> fst ` set items"
  shows "map_of (counts s') c = map_of (counts s) c
       \<and> map_of (counts_change s') c = map_of (counts_change s) c
       \<and> map_of (sample_counts s') c = map_of (sample_counts s) c
       \<and> map_of (sample_counts_change s') c = map_of (sample_counts_change s) c"
  using assms
proof (induction items arbitrary: s)
  case Nil
  then show ?case by simp
next
  case (Cons x items)
  obtain c' ch where x: "x = (c', ch)" by (cases x)
  from Cons.prems(1) obtain s1 where
    h: "apply_category (c', ch) s = Inr s1" and t: "for_each apply_category items s1 = Inr s'"
    by (auto simp: x split: sum.splits)
  have ne: "c' \<noteq> c" and notin: "c \<notin> fst ` set items" using Cons.prems(2) x by auto
  show ?case using apply_category_other [OF h ne] Cons.IH [OF t notin] by simp
qed

lemma for_each_distinct:
  assumes "for_each apply_category items s = Inr s'" and "distinct (map fst (counts_change s))"
  shows "distinct (map fst (counts_change s'))"
  using assms
proof (induction items arbitrary: s)
  case Nil
  then show ?case by simp
next
  case (Cons x items)
  from Cons.prems(1) obtain s1 where
    h: "apply_category x s = Inr s1" and t: "for_each apply_category items s1 = Inr s'"
    by (auto split: sum.splits)
  show ?case using Cons.IH [OF t apply_category_distinct [OF h Cons.prems(2)]] .
qed

lemma for_each_at:
  assumes "for_each apply_category items s = Inr s'" and "distinct (map fst items)"
    and "(c, ch) \<in> set items"
    and "map_of (sample_counts s) c = Some old" and "map_of (sample_counts_change s) c = Some d"
    and "map_of (counts s) c = Some counter"
  shows "old + d \<noteq> 0
       \<and> map_of (counts s') c
           = Some (add_changes (old + d) ch (rescale (of_int old / of_int (old + d)) counter))
       \<and> map_of (counts_change s') c = Some []
       \<and> map_of (sample_counts s') c = Some (old + d)
       \<and> map_of (sample_counts_change s') c = Some 0"
  using assms
proof (induction items arbitrary: s)
  case Nil
  then show ?case by simp
next
  case (Cons x items)
  obtain c' ch' where x: "x = (c', ch')" by (cases x)
  from Cons.prems(1) obtain s1 where
    h: "apply_category (c', ch') s = Inr s1" and t: "for_each apply_category items s1 = Inr s'"
    by (auto simp: x split: sum.splits)
  show ?case
  proof (cases "c' = c")
    case True
    have notin: "c \<notin> fst ` set items" using Cons.prems(2) x True by auto
    then have ch: "ch' = ch" using Cons.prems(3) x True by force
    have nz: "old + d \<noteq> 0"
    proof
      assume "old + d = 0"
      then have "apply_category (c, ch) s = Inl (ZeroDivisionError, s)"
        by (rule apply_category_raises [OF Cons.prems(4,5)])
      then show False using h True ch by simp
    qed
    have "apply_category (c, ch) s = Inr s1" using h True ch by simp
    then have s1: "s1 = s\<lparr>counts := AList.update c
              (add_changes (old + d) ch (rescale (of_int old / of_int (old + d)) counter)) (counts s),
           counts_change := AList.update c [] (counts_change s),
           sample_counts := AList.update c (old + d) (sample_counts s),
           sample_counts_change := AList.update c 0 (sample_counts_change s)\<rparr>"
      using apply_category_known [OF Cons.prems(4,5,6) nz, of ch] by simp
    show ?thesis using for_each_other [OF t notin] nz by (simp add: s1 update_conv')
  next
    case False
    then have mem: "(c, ch) \<in> set items" using Cons.prems(3) x by auto
    have d: "distinct (map fst items)" using Cons.prems(2) by simp
    have same: "map_of (sample_counts s1) c = Some old"
      "map_of (sample_counts_change s1) c = Some d" "map_of (counts s1) c = Some counter"
      using apply_category_other [OF h False] Cons.prems(4,5,6) by simp_all
    show ?thesis by (rule Cons.IH [OF t d mem same])
  qed
qed

lemma train_category:
  assumes "distinct (map fst (counts_change m))"
    and "map_of (counts_change m) c = Some []" and "map_of (sample_counts_change m) c = Some 0"
    and "map_of (sample_counts m) c = Some n0" and "0 \<le> n0"
    and "map_of (counts m) c = Some table" and "S \<noteq> []"
    and "add_samples m (map (\<lambda>x. (x, c)) S) = Inr a" and "apply_changes a = Inr m'"
  shows "distinct (map fst (counts_change m'))
       \<and> map_of (counts_change m') c = Some []
       \<and> map_of (sample_counts_change m') c = Some 0
       \<and> map_of (sample_counts m') c = Some (n0 + int (length S))
       \<and> (\<exists>table'. map_of (counts m') c = Some table'
             \<and> counter_get table' f
                 = (if n0 = 0 then counter_get table f
                    else counter_get table f * (of_int n0 / of_int (n0 + int (length S))))
                   + of_nat (batch_count S f) / of_int (n0 + int (length S)))"
proof -
  let ?n = "n0 + int (length S)"
  have e: "distinct (map fst ([] :: (feature \<times> int) list))"
    and z: "0 \<le> counter_get ([] :: (feature \<times> int) list) f"
    by (simp_all add: counter_get_Nil)
  from add_samples_category [OF assms(2,3) e z, of S] assms(8) obtain ch where
    c1: "counts a = counts m" and c2: "sample_counts a = sample_counts m"
    and k: "map fst (counts_change a) = map fst (counts_change m)"
    and l: "map_of (counts_change a) c = Some ch" and dd: "distinct (map fst ch)"
    and v: "counter_get ch f = int (batch_count S f)"
    and n: "map_of (sample_counts_change a) c = Some (int (length S))"
    by (auto simp: counter_get_Nil)
  have da: "distinct (map fst (counts_change a))" using k assms(1) by simp
  have mem: "(c, ch) \<in> set (counts_change a)" using l by (rule map_of_SomeD)
  have run: "for_each apply_category (counts_change a) a = Inr m'"
    using assms(9) by (simp add: apply_changes_def)
  have old: "map_of (sample_counts a) c = Some n0" and tab: "map_of (counts a) c = Some table"
    using assms(4,6) c1 c2 by simp_all
  from for_each_at [OF run da mem old n tab] have
    nz: "?n \<noteq> 0"
    and t': "map_of (counts m') c
               = Some (add_changes ?n ch (rescale (of_int n0 / of_int ?n) table))"
    and r1: "map_of (counts_change m') c = Some []"
    and r2: "map_of (sample_counts m') c = Some ?n"
    and r3: "map_of (sample_counts_change m') c = Some 0"
    by simp_all
  have r0: "distinct (map fst (counts_change m'))" by (rule for_each_distinct [OF run da])
  have ratio: "(of_int n0 / of_int ?n = (0::rat)) = (n0 = 0)" using nz by simp
  have val: "counter_get (add_changes ?n ch (rescale (of_int n0 / of_int ?n) table)) f
      = (if n0 = 0 then counter_get table f
         else counter_get table f * (of_int n0 / of_int ?n))
        + of_nat (batch_count S f) / of_int ?n"
    using ratio by (simp add: counter_get_add_changes [OF dd] counter_get_rescale v)
  show ?thesis using r0 r1 r2 r3 t' val by blast
qed

text \<open>
  Where the commits return, the table is the running mean.  Let category \<open>c\<close> have no
  committed sample, no entry other than 0 for feature \<open>f\<close> and nothing staged, in a model
  whose staged dictionary has distinct keys.  If staging the samples of \<open>S1\<close> with
  \<open>add_sample\<close>, \<open>apply_changes\<close>, staging the samples of \<open>S2\<close> and \<open>apply_changes\<close>
  again all return, then the table of \<open>c\<close> holds \<open>(k1 + k2) / (n1 + n2)\<close> for \<open>f\<close>, where
  \<open>k1\<close> and \<open>k2\<close> count the occurrences of \<open>f\<close> in the two batches, and the sample count
  of \<open>c\<close> is \<open>n1 + n2\<close>.
\<close>

lemma running_mean:
  assumes "distinct (map fst (counts_change m))"
    and "map_of (counts_change m) c = Some []" and "map_of (sample_counts_change m) c = Some 0"
    and "map_of (sample_counts m) c = Some 0"
    and "map_of (counts m) c = Some table" and "counter_get table f = 0"
    and "S1 \<noteq> []" and "S2 \<noteq> []"
    and "add_samples m (map (\<lambda>x. (x, c)) S1) = Inr a1" and "apply_changes a1 = Inr m1"
    and "add_samples m1 (map (\<lambda>x. (x, c)) S2) = Inr a2" and "apply_changes a2 = Inr m2"
  shows "\<exists>table'. map_of (counts m2) c = Some table'
           \<and> counter_get table' f
               = of_nat (batch_count S1 f + batch_count S2 f) / of_nat (length S1 + length S2)
           \<and> map_of (sample_counts m2) c = Some (int (length S1 + length S2))"
proof -
  from train_category [OF assms(1,2,3,4) order_refl assms(5,7,9,10), of f] obtain t1 where
    d1: "distinct (map fst (counts_change m1))"
    and e1: "map_of (counts_change m1) c = Some []"
    and z1: "map_of (sample_counts_change m1) c = Some 0"
    and n1: "map_of (sample_counts m1) c = Some (0 + int (length S1))"
    and t1: "map_of (counts m1) c = Some t1"
    and v1: "counter_get t1 f = of_nat (batch_count S1 f) / of_int (0 + int (length S1))"
    using assms(6) by auto
  have pos: "0 \<le> 0 + int (length S1)" by simp
  have len: "0 + int (length S1) \<noteq> 0" using assms(7) by simp
  from train_category [OF d1 e1 z1 n1 pos t1 assms(8,11,12), of f] len obtain t2 where
    t2: "map_of (counts m2) c = Some t2"
    and n2: "map_of (sample_counts m2) c = Some (0 + int (length S1) + int (length S2))"
    and v2: "counter_get t2 f
        = counter_get t1 f * (of_int (0 + int (length S1))
             / of_int (0 + int (length S1) + int (length S2)))
          + of_nat (batch_count S2 f) / of_int (0 + int (length S1) + int (length S2))"
    by auto
  have l1: "(of_nat (length S1) :: rat) \<noteq> 0" using assms(7) by simp
  have "counter_get t2 f
          = of_nat (batch_count S1 f + batch_count S2 f) / of_nat (length S1 + length S2)"
    using l1 by (simp add: v2 v1 add_divide_distrib)
  then show ?thesis using t2 n2 by simp
qed

lemma running_mean_run:
  "add_samples half_trained [([(''rocket'', 2), (''launch'', 1)], ''interesting'')]
     = Inr \<lparr>counts_change = [(''interesting'', [(''rocket'', 2), (''launch'', 1)]), (''boring'', [])],
            counts = [(''interesting'', []), (''boring'', [(''launch'', 1), (''delay'', 1)])],
            sample_counts = [(''interesting'', 0), (''boring'', 1)],
            sample_counts_change = [(''interesting'', 1), (''boring'', 0)]\<rparr>
   \<and> apply_changes
        \<lparr>counts_change = [(''interesting'', [(''rocket'', 2), (''launch'', 1)]), (''boring'', [])],
         counts = [(''interesting'', []), (''boring'', [(''launch'', 1), (''delay'', 1)])],
         sample_counts = [(''interesting'', 0), (''boring'', 1)],
         sample_counts_change = [(''interesting'', 1), (''boring'', 0)]\<rparr>
     = Inr end_to_end
   \<and> add_samples end_to_end
        [([(''launch'', 1)], ''interesting''), ([(''rocket'', 1)], ''interesting'')]
     = Inr \<lparr>counts_change = [(''interesting'', [(''launch'', 1), (''rocket'', 1)]), (''boring'', [])],
            counts = [(''interesting'', [(''rocket'', 2), (''launch'', 1)]),
                      (''boring'', [(''launch'', 1), (''delay'', 1)])],
            sample_counts = [(''interesting'', 1), (''boring'', 1)],
            sample_counts_change = [(''interesting'', 2), (''boring'', 0)]\<rparr>
   \<and> apply_changes
        \<lparr>counts_change = [(''interesting'', [(''launch'', 1), (''rocket'', 1)]), (''boring'', [])],
         counts = [(''interesting'', [(''rocket'', 2), (''launch'', 1)]),
                   (''boring'', [(''launch'', 1), (''delay'', 1)])],
         sample_counts = [(''interesting'', 1), (''boring'', 1)],
         sample_counts_change = [(''interesting'', 2), (''boring'', 0)]\<rparr>
     = Inr \<lparr>counts_change = [(''interesting'', []), (''boring'', [])],
            counts = [(''interesting'', [(''rocket'', 1), (''launch'', 2 / 3)]),
                      (''boring'', [(''launch'', 1), (''delay'', 1)])],
            sample_counts = [(''interesting'', 3), (''boring'', 1)],
            sample_counts_change = [(''interesting'', 0), (''boring'', 0)]\<rparr>
   \<and> (\<exists>table'.
         map_of (counts \<lparr>counts_change = [(''interesting'', []), (''boring'', [])],
            counts = [(''interesting'', [(''rocket'', 1), (''launch'', 2 / 3)]),
                      (''boring'', [(''launch'', 1), (''delay'', 1)])],
            sample_counts = [(''interesting'', 3), (''boring'', 1)],
            sample_counts_change = [(''interesting'', 0), (''boring'', 0)]\<rparr>) ''interesting''
           = Some table'
         \<and> counter_get table' ''launch'' = 2 / 3)"
proof -
  let ?S1 = "[[(''rocket'', 2), (''launch'', 1)]] :: feature_counts list"
  let ?S2 = "[[(''launch'', 1)], [(''rocket'', 1)]] :: feature_counts list"
  let ?a1 = "\<lparr>counts_change = [(''interesting'', [(''rocket'', 2), (''launch'', 1)]), (''boring'', [])],
         counts = [(''interesting'', []), (''boring'', [(''launch'', 1), (''delay'', 1)])],
         sample_counts = [(''interesting'', 0), (''boring'', 1)],
         sample_counts_change = [(''interesting'', 1), (''boring'', 0)]\<rparr>"
  let ?a2 = "\<lparr>counts_change = [(''interesting'', [(''launch'', 1), (''rocket'', 1)]), (''boring'', [])],
         counts = [(''interesting'', [(''rocket'', 2), (''launch'', 1)]),
                   (''boring'', [(''launch'', 1), (''delay'', 1)])],
         sample_counts = [(''interesting'', 1), (''boring'', 1)],
         sample_counts_change = [(''interesting'', 2), (''boring'', 0)]\<rparr>"
  let ?m2 = "\<lparr>counts_change = [(''interesting'', []), (''boring'', [])],
            counts = [(''interesting'', [(''rocket'', 1), (''launch'', 2 / 3)]),
                      (''boring'', [(''launch'', 1), (''delay'', 1)])],
            sample_counts = [(''interesting'', 3), (''boring'', 1)],
            sample_counts_change = [(''interesting'', 0), (''boring'', 0)]\<rparr>"
  have h1: "distinct (map fst (counts_change half_trained))"
    and h2: "map_of (counts_change half_trained) ''interesting'' = Some []"
    and h3: "map_of (sample_counts_change half_trained) ''interesting'' = Some 0"
    and h4: "map_of (sample_counts half_trained) ''interesting'' = Some 0"
    and h5: "map_of (counts half_trained) ''interesting'' = Some []"
    and h6: "counter_get ([] :: (feature \<times> rat) list) ''launch'' = 0"
    and h7: "?S1 \<noteq> []" and h8: "?S2 \<noteq> []"
    by (simp_all add: half_trained_def counter_get_def)
  have h9: "add_samples half_trained (map (\<lambda>x. (x, ''interesting'')) ?S1) = Inr ?a1"
    by (simp add: half_trained_def run_defs)
  have h10: "apply_changes ?a1 = Inr end_to_end"
    by (simp add: end_to_end_def run_defs)
  have h11: "add_samples end_to_end (map (\<lambda>x. (x, ''interesting'')) ?S2) = Inr ?a2"
    by (simp add: end_to_end_def run_defs)
  have h12: "apply_changes ?a2 = Inr ?m2"
    by (simp add: run_defs)
  show ?thesis
    using running_mean [OF h1 h2 h3 h4 h5 h6 h7 h8 h9 h10 h11 h12] h9 h10 h11 h12
    by (simp add: batch_count_def feature_count_def)
qed

text \<open>
  Claim C4 (the code departs from it).  \<open>apply_changes\<close> walks every category and
  divides by its new total with no test before the division, so on the fresh model
  \<open>TextClassifier(['interesting', 'boring'])\<close> a commit raises \<open>ZeroDivisionError\<close> as
  long as one category has no sample.  Trained on \<open>boring\<close> alone, with the batch
  \<open>{x: 1}\<close> and then the batch \<open>{x: 1}\<close> again, both commits raise at \<open>interesting\<close>
  before \<open>boring\<close> is reached: its table is still empty and its sample count still 0,
  where the claim has the frequency \<open>(1 + 1) / (1 + 1)\<close> for \<open>x\<close>.  Trained on
  \<open>interesting\<close> alone, the commit updates \<open>interesting\<close> and then raises at \<open>boring\<close>.
\<close>

theorem apply_changes_raises_in_training:
  "add_samples (init [''interesting'', ''boring'']) [([(''x'', 1)], ''boring'')]
     = Inr \<lparr>counts_change = [(''interesting'', []), (''boring'', [(''x'', 1)])],
            counts = [(''interesting'', []), (''boring'', [])],
            sample_counts = [(''interesting'', 0), (''boring'', 0)],
            sample_counts_change = [(''interesting'', 0), (''boring'', 1)]\<rparr>
   \<and> apply_changes
        \<lparr>counts_change = [(''interesting'', []), (''boring'', [(''x'', 1)])],
         counts = [(''interesting'', []), (''boring'', [])],
         sample_counts = [(''interesting'', 0), (''boring'', 0)],
         sample_counts_change = [(''interesting'', 0), (''boring'', 1)]\<rparr>
     = Inl (ZeroDivisionError,
        \<lparr>counts_change = [(''interesting'', []), (''boring'', [(''x'', 1)])],
         counts = [(''interesting'', []), (''boring'', [])],
         sample_counts = [(''interesting'', 0), (''boring'', 0)],
         sample_counts_change = [(''interesting'', 0), (''boring'', 1)]\<rparr>)
   \<and> add_samples
        \<lparr>counts_change = [(''interesting'', []), (''boring'', [(''x'', 1)])],
         counts = [(''interesting'', []), (''boring'', [])],
         sample_counts = [(''interesting'', 0), (''boring'', 0)],
         sample_counts_change = [(''interesting'', 0), (''boring'', 1)]\<rparr>
        [([(''x'', 1)], ''boring'')]
     = Inr \<lparr>counts_change = [(''interesting'', []), (''boring'', [(''x'', 2)])],
            counts = [(''interesting'', []), (''boring'', [])],
            sample_counts = [(''interesting'', 0), (''boring'', 0)],
            sample_counts_change = [(''interesting'', 0), (''boring'', 2)]\<rparr>
   \<and> apply_changes
        \<lparr>counts_change = [(''interesting'', []), (''boring'', [(''x'', 2)])],
         counts = [(''interesting'', []), (''boring'', [])],
         sample_counts = [(''interesting'', 0), (''boring'', 0)],
         sample_counts_change = [(''interesting'', 0), (''boring'', 2)]\<rparr>
     = Inl (ZeroDivisionError,
        \<lparr>counts_change = [(''interesting'', []), (''boring'', [(''x'', 2)])],
         counts = [(''interesting'', []), (''boring'', [])],
         sample_counts = [(''interesting'', 0), (''boring'', 0)],
         sample_counts_change = [(''interesting'', 0), (''boring'', 2)]\<rparr>)
   \<and> counter_get ([] :: (feature \<times> rat) list) ''x''
       \<noteq> of_nat (batch_count [[(''x'', 1)]] ''x'' + batch_count [[(''x'', 1)]] ''x'')
         / of_nat (length [[(''x'', 1 :: nat)]] + length [[(''x'', 1 :: nat)]])
   \<and> add_samples (init [''interesting'', ''boring'']) [([(''x'', 1)], ''interesting'')]
     = Inr \<lparr>counts_change = [(''interesting'', [(''x'', 1)]), (''boring'', [])],
            counts = [(''interesting'', []), (''boring'', [])],
            sample_counts = [(''interesting'', 0), (''boring'', 0)],
            sample_counts_change = [(''interesting'', 1), (''boring'', 0)]\<rparr>
   \<and> apply_changes
        \<lparr>counts_change = [(''interesting'', [(''x'', 1)]), (''boring'', [])],
         counts = [(''interesting'', []), (''boring'', [])],
         sample_counts = [(''interesting'', 0), (''boring'', 0)],
         sample_counts_change = [(''interesting'', 1), (''boring'', 0)]\<rparr>
     = Inl (ZeroDivisionError,
        \<lparr>counts_change = [(''interesting'', []), (''boring'', [])],
         counts = [(''interesting'', [(''x'', 1)]), (''boring'', [])],
         sample_counts = [(''interesting'', 1), (''boring'', 0)],
         sample_counts_change = [(''interesting'', 0), (''boring'', 0)]\<rparr>)"
  by (simp add: init_two run_defs batch_count_def feature_count_def)

section \<open>Normalising a text\<close>

lemmas normalize_defs =
  entity_def lower_def lower_char_def apply_regexes_def aint_def contraction_def negation_def
  stopword_def tag_def digits_def literal_word_def word_boundary_def is_word_def is_digit_def
  is_space_def

subsection \<open>What the stop word pattern matches\<close>






subsection \<open>The text \<open>It's a test!! 123\<close>\<close>












lemma counted:
  "prepare_counter stub_resources ''rocket launch'' = Inr [(''rocket'', 1), (''launch'', 1)]"
  "prepare_counter stub_resources ''delay again'' = Inr [(''delay'', 1), (''again'', 1)]"
  by (simp_all add: prepare_counter_def prepare_words_def unescape_def Counter_def counter_incr_def
      counter_get_def stub_resources_def replace_irregular_words_def normalize_defs)

section \<open>Loading the model\<close>

text \<open>
  Claim C7 (the code departs from it).  With no stored text at all, \<open>loadClassifier\<close>
  trains the fresh model on the corpus and saves it.  With a stored text for the tables
  and none for the sample counts, the second \<open>json.loads\<close> raises after \<open>counts\<close> has
  been replaced, and the retraining runs on the loaded tables: the entry \<open>stale: 1\<close> of
  the stored table is still in the retrained and saved model, which therefore was not
  trained from an empty table.
\<close>

theorem loadClassifier_retrains_on_loaded_counts:
  "loadClassifier stub_json stub_resources
     \<lparr>variables = [], history = [], blacklist = []\<rparr>
     (Some [\<lparr>title = ''rocket'', summary = ''launch''\<rparr>])
     (Some [\<lparr>title = ''delay'', summary = ''again''\<rparr>])
   = (Inr \<lparr>counts_change = [(''interesting'', []), (''boring'', [])],
            counts = [(''interesting'', [(''rocket'', 1), (''launch'', 1)]),
                      (''boring'', [(''delay'', 1), (''again'', 1)])],
            sample_counts = [(''interesting'', 1), (''boring'', 1)],
            sample_counts_change = [(''interesting'', 0), (''boring'', 0)]\<rparr>,
      \<lparr>variables = [(''classifier_counts'', ''saved counts''),
                    (''classifier_sample_counts'', ''saved sample counts'')],
       history = [], blacklist = []\<rparr>)
   \<and> loadClassifier stub_json stub_resources
     \<lparr>variables = [(''classifier_counts'', ''stored counts'')], history = [], blacklist = []\<rparr>
     (Some [\<lparr>title = ''rocket'', summary = ''launch''\<rparr>])
     (Some [\<lparr>title = ''delay'', summary = ''again''\<rparr>])
   = (Inr \<lparr>counts_change = [(''interesting'', []), (''boring'', [])],
            counts = [(''interesting'', [(''stale'', 1), (''rocket'', 1), (''launch'', 1)]),
                      (''boring'', [(''delay'', 1), (''again'', 1)])],
            sample_counts = [(''interesting'', 1), (''boring'', 1)],
            sample_counts_change = [(''interesting'', 0), (''boring'', 0)]\<rparr>,
      \<lparr>variables = [(''classifier_counts'', ''saved counts''),
                    (''classifier_sample_counts'', ''saved sample counts'')],
       history = [], blacklist = []\<rparr>)"
  by (simp add: loadClassifier_def retrain_def add_article_def saveClassifier_def get_var_def
      set_var_def stub_json_def counted init_two run_defs)

text \<open>
  With an empty blacklist the retraining does not complete either: \<open>apply_changes\<close>
  divides by the zero total of \<open>boring\<close>, the exception leaves \<open>loadClassifier\<close> and
  nothing is saved.
\<close>

lemma loadClassifier_empty_blacklist_raises:
  "loadClassifier stub_json stub_resources
     \<lparr>variables = [], history = [], blacklist = []\<rparr>
     (Some [\<lparr>title = ''rocket'', summary = ''launch''\<rparr>]) (Some [])
   = (Inl (ZeroDivisionError,
        \<lparr>counts_change = [(''interesting'', []), (''boring'', [])],
         counts = [(''interesting'', [(''rocket'', 1), (''launch'', 1)]), (''boring'', [])],
         sample_counts = [(''interesting'', 1), (''boring'', 0)],
         sample_counts_change = [(''interesting'', 0), (''boring'', 0)]\<rparr>),
      \<lparr>variables = [], history = [], blacklist = []\<rparr>)"
  by (simp add: loadClassifier_def retrain_def add_article_def saveClassifier_def get_var_def
      set_var_def stub_json_def counted init_two run_defs)

end
